theory Spec2Isabelle
  imports Main "HOL-Library.Char_ord" "HOL-Library.List_Lexorder"
begin

section \<open>The event bot: three programs over one store\<close>

text \<open>
  The repository holds three versions of the same Slack bot. Each is a complete
  program with its own copy of every function, so the definitions below carry a suffix
  where the texts differ:
  \<^item> no suffix: \<^verbatim>\<open>src/unnamed/part_001\<close> (\<^verbatim>\<open>remove\<close>/\<^verbatim>\<open>delete\<close>, \<^verbatim>\<open>Intl\<close> time keys,
    \<^verbatim>\<open>nextId\<close> as a loop);
  \<^item> suffix \<^verbatim>\<open>_B\<close>: the first program of \<^verbatim>\<open>src/unnamed/part_000\<close> (lines 1 to 259; the
    same texts as \<^verbatim>\<open>part_001\<close> except \<^verbatim>\<open>nextId\<close>, the \<^verbatim>\<open>remove\<close> argument check and
    \<^verbatim>\<open>tryPostReminder\<close>);
  \<^item> suffix \<^verbatim>\<open>_C\<close>: the second program of \<^verbatim>\<open>src/unnamed/part_000\<close> (lines 260 to 452;
    \<^verbatim>\<open>parseAddArgs\<close>, \<^verbatim>\<open>del\<close>, \<^verbatim>\<open>formatJst\<close> from the host's local time).
\<close>

subsection \<open>Values read from the JSON store\<close>

text \<open>
  A JavaScript number is a double: \<open>NaN\<close>, an infinity, or a finite value. A finite
  double is an integer (\<open>Num n\<close>) or an odd multiple of a negative power of two
  (\<open>Frac m k\<close> is \<open>m / 2^k\<close> with \<open>m\<close> odd and \<open>k > 0\<close>). The two zeros are one value
  here: no code of the programs tells them apart (\<^verbatim>\<open>-0 === 0\<close>, and both print and
  serialise as \<^verbatim>\<open>0\<close>).
\<close>

datatype jsnum = NaN | Num int | Frac int nat | PosInf | NegInf

text \<open>
  A field of a stored record as \<^verbatim>\<open>JSON.parse\<close> returns it: absent (reads as
  \<^verbatim>\<open>undefined\<close>), \<^verbatim>\<open>null\<close>, a boolean, a number (\<open>JNum n\<close> the integer \<open>n\<close>,
  \<open>JFrac m k\<close> the number \<open>m / 2^k\<close>) or a string. A parsed number is a double; where
  the program reads a number that is none, it reads the double nearest to it (see
  \<open>Number\<close>). Arrays and objects as field values are not modelled.
\<close>

datatype json = Missing | JNull | JBool bool | JNum int | JFrac int nat | JStr string

text \<open>
  The record \<^verbatim>\<open>{ id, isoJst, title, notified }\<close>. The field \<^verbatim>\<open>id\<close> is called
  \<open>id_ev\<close> (\<open>id\<close> is the identity function of HOL). \<^verbatim>\<open>isoJst\<close> and \<^verbatim>\<open>title\<close> are
  strings, as the \<^verbatim>\<open>add\<close> command writes them.
\<close>

record event =
  id_ev :: json
  isoJst :: string
  title :: string
  notified :: json

subsection \<open>Strings: white space, tokens, digits\<close>

text \<open>
  Strings are lists of 8-bit code units. \<^verbatim>\<open>\s\<close>, \<^verbatim>\<open>trim\<close> and \<^verbatim>\<open>Number\<close> read the
  same white space: TAB, LF, VT, FF, CR, SP and NBSP in this range.
\<close>

definition isWhite :: "char \<Rightarrow> bool" where
  "isWhite c = (of_char c \<in> {9, 10, 11, 12, 13, 32, 160 :: nat})"

definition trim :: "string \<Rightarrow> string" where
  "trim s = rev (dropWhile isWhite (rev (dropWhile isWhite s)))"

text \<open>
  \<^verbatim>\<open>s.split(/\s+/)\<close>: the pieces between maximal runs of white space; a run at the
  start or the end leaves an empty piece there, and the empty string gives \<^verbatim>\<open>[""]\<close>.
\<close>

lemma dropWhile_white_shorter:
  assumes "dropWhile (\<lambda>c. \<not> isWhite c) s \<noteq> []"
  shows "length (dropWhile isWhite (dropWhile (\<lambda>c. \<not> isWhite c) s)) < length s"
proof -
  obtain c cs where r: "dropWhile (\<lambda>c. \<not> isWhite c) s = c # cs"
    using assms by (cases "dropWhile (\<lambda>c. \<not> isWhite c) s") auto
  have "\<not> \<not> isWhite (hd (dropWhile (\<lambda>c. \<not> isWhite c) s))"
    using assms by (rule hd_dropWhile)
  then have w: "isWhite c" by (simp add: r)
  have "length (dropWhile isWhite (c # cs)) \<le> length cs"
    using w length_dropWhile_le [of isWhite cs] by simp
  moreover have "length (c # cs) \<le> length s"
    using length_dropWhile_le [of "\<lambda>c. \<not> isWhite c" s] by (simp add: r)
  ultimately show ?thesis by (simp add: r)
qed

function split_ws :: "string \<Rightarrow> string list" where
  "split_ws s =
     (let tok = takeWhile (\<lambda>c. \<not> isWhite c) s;
          rest = dropWhile (\<lambda>c. \<not> isWhite c) s
      in if rest = [] then [tok] else tok # split_ws (dropWhile isWhite rest))"
  by pat_completeness auto
termination
  by (relation "measure length") (auto simp: dropWhile_white_shorter)

declare split_ws.simps [simp del]

text \<open>\<^verbatim>\<open>xs.join(" ")\<close>.\<close>

fun join :: "string list \<Rightarrow> string" where
  "join [] = []"
| "join [x] = x"
| "join (x # y # ys) = x @ '' '' @ join (y # ys)"

text \<open>\<^verbatim>\<open>\d\<close> and the value of a string of decimal digits.\<close>

definition isDigit :: "char \<Rightarrow> bool" where
  "isDigit c = (48 \<le> (of_char c :: nat) \<and> (of_char c :: nat) \<le> 57)"

definition digitVal :: "char \<Rightarrow> nat" where
  "digitVal c = of_char c - 48"

definition dec :: "string \<Rightarrow> nat" where
  "dec s = foldl (\<lambda>n c. 10 * n + digitVal c) 0 s"

text \<open>\<^verbatim>\<open>/^\d{4}-\d{2}-\d{2}$/.test(s)\<close> and \<^verbatim>\<open>/^\d{2}:\d{2}$/.test(s)\<close>.\<close>

definition matchDate :: "string \<Rightarrow> bool" where
  "matchDate s =
     (length s = 10 \<and> list_all isDigit (take 4 s) \<and> s ! 4 = CHR ''-'' \<and>
      list_all isDigit (take 2 (drop 5 s)) \<and> s ! 7 = CHR ''-'' \<and>
      list_all isDigit (drop 8 s))"

definition matchTime :: "string \<Rightarrow> bool" where
  "matchTime s =
     (length s = 5 \<and> list_all isDigit (take 2 s) \<and> s ! 2 = CHR '':'' \<and>
      list_all isDigit (drop 3 s))"

subsection \<open>Numbers: rounding to a double, \<^verbatim>\<open>Number\<close>, \<^verbatim>\<open>Math.max\<close>\<close>

text \<open>
  \<open>toDouble n d\<close> is the double nearest to the exact value \<open>n / d\<close> (for \<open>d > 0\<close>), ties
  to the even significand, as IEEE 754 and ECMAScript round a numeric literal and the
  result of \<^verbatim>\<open>+\<close>. \<open>bits a\<close> is the length of \<open>a\<close> in binary, \<open>lg\<close> the exponent of the
  value (the greatest \<open>e\<close> with \<open>2^e \<le> |n / d|\<close>), \<open>2^s\<close> the distance of neighbouring
  doubles there (53 significant bits, exponents from -1022), \<open>m\<close> the value in that
  unit. A value that rounds to \<open>2^1024\<close> or more is an infinity.
\<close>

function bits :: "int \<Rightarrow> nat" where
  "bits n = (if n \<le> 0 then 0 else Suc (bits (n div 2)))"
  by pat_completeness auto
termination
  by (relation "measure nat") auto

declare bits.simps [simp del]

text \<open>\<open>m / 2^k\<close> in lowest terms.\<close>

fun dyadic :: "int \<Rightarrow> nat \<Rightarrow> jsnum" where
  "dyadic m 0 = Num m"
| "dyadic m (Suc k) = (if even m then dyadic (m div 2) k else Frac m (Suc k))"

text \<open>The integer nearest to \<open>n / d\<close> for \<open>n \<ge> 0\<close> and \<open>d > 0\<close>, the even one of two.\<close>

definition roundHalfEven :: "int \<Rightarrow> int \<Rightarrow> int" where
  "roundHalfEven n d =
     (let f = n div d; r = 2 * (n mod d)
      in if r < d then f else if d < r then f + 1 else if even f then f else f + 1)"

definition toDouble :: "int \<Rightarrow> int \<Rightarrow> jsnum" where
  "toDouble n d =
     (if n = 0 then Num 0
      else
        (let a = \<bar>n\<bar>;
             e0 = int (bits a) - int (bits d);
             lg = (if (if 0 \<le> e0 then 2 ^ nat e0 * d \<le> a else d \<le> 2 ^ nat (- e0) * a)
                   then e0 else e0 - 1);
             e = max lg (- 1022);
             s = e - 52;
             m = (if 0 \<le> s then roundHalfEven a (d * 2 ^ nat s)
                  else roundHalfEven (a * 2 ^ nat (- s)) d);
             sm = (if 0 < n then m else - m)
         in if 1024 \<le> lg \<or> (e = 1023 \<and> m = 2 ^ 53) then (if 0 < n then PosInf else NegInf)
            else if 0 \<le> s then Num (sm * 2 ^ nat s)
            else dyadic sm (nat (- s))))"

text \<open>
  \<^verbatim>\<open>Number(s)\<close> on a string (ECMAScript, StringToNumber): white space is trimmed; the
  empty string is 0; what remains must be a \<^verbatim>\<open>StrNumericLiteral\<close>, all of it, or the
  result is \<open>NaN\<close>. A \<^verbatim>\<open>StrNumericLiteral\<close> is a binary, octal or hexadecimal integer
  with its prefix and no sign, or an optionally signed \<^verbatim>\<open>Infinity\<close> or decimal literal:
  digits with an optional fraction and an optional exponent, with at least one digit
  before the exponent. The result is the double nearest to the literal's value.
\<close>

definition isHex :: "char \<Rightarrow> bool" where
  "isHex c = (isDigit c \<or> c \<in> set ''abcdefABCDEF'')"

definition hexVal :: "char \<Rightarrow> nat" where
  "hexVal c = (if isDigit c then digitVal c
               else if c \<in> set ''abcdef'' then of_char c - 87 else of_char c - 55)"

definition radix :: "int \<Rightarrow> string \<Rightarrow> int" where
  "radix b s = foldl (\<lambda>n c. b * n + int (hexVal c)) 0 s"

definition NonDecimalIntegerLiteral :: "string \<Rightarrow> jsnum option" where
  "NonDecimalIntegerLiteral t =
     (let p = take 2 t; ds = drop 2 t in
      if p = ''0x'' \<or> p = ''0X'' then
        Some (if ds \<noteq> [] \<and> list_all isHex ds then toDouble (radix 16 ds) 1 else NaN)
      else if p = ''0o'' \<or> p = ''0O'' then
        Some (if ds \<noteq> [] \<and> list_all (\<lambda>c. c \<in> set ''01234567'') ds
              then toDouble (radix 8 ds) 1 else NaN)
      else if p = ''0b'' \<or> p = ''0B'' then
        Some (if ds \<noteq> [] \<and> list_all (\<lambda>c. c \<in> set ''01'') ds
              then toDouble (radix 2 ds) 1 else NaN)
      else None)"

text \<open>The exponent after the digits: \<open>Some 0\<close> when there is none, \<open>None\<close> when what
  follows the digits is no exponent.\<close>

definition ExponentPart :: "string \<Rightarrow> int option" where
  "ExponentPart r =
     (if r = [] then Some 0
      else if hd r = CHR ''e'' \<or> hd r = CHR ''E'' then
        (let r1 = tl r;
             neg = (r1 \<noteq> [] \<and> hd r1 = CHR ''-'');
             ds = (if r1 \<noteq> [] \<and> (hd r1 = CHR ''-'' \<or> hd r1 = CHR ''+'') then tl r1 else r1)
         in if ds \<noteq> [] \<and> list_all isDigit ds
            then Some (if neg then - radix 10 ds else radix 10 ds) else None)
      else None)"

definition StrUnsignedDecimalLiteral :: "string \<Rightarrow> jsnum" where
  "StrUnsignedDecimalLiteral t =
     (if t = ''Infinity'' then PosInf
      else
        (let ip = takeWhile isDigit t;
             r1 = dropWhile isDigit t;
             dot = (r1 \<noteq> [] \<and> hd r1 = CHR ''.'');
             fp = (if dot then takeWhile isDigit (tl r1) else []);
             r2 = (if dot then dropWhile isDigit (tl r1) else r1)
         in if ip = [] \<and> fp = [] then NaN
            else
              (case ExponentPart r2 of
                 None \<Rightarrow> NaN
               | Some x \<Rightarrow>
                   (let k = x - int (length fp); n = radix 10 (ip @ fp)
                    in if 0 \<le> k then toDouble (n * 10 ^ nat k) 1
                       else toDouble n (10 ^ nat (- k))))))"

definition negate :: "jsnum \<Rightarrow> jsnum" where
  "negate x = (case x of NaN \<Rightarrow> NaN | Num n \<Rightarrow> Num (- n) | Frac m k \<Rightarrow> Frac (- m) k
               | PosInf \<Rightarrow> NegInf | NegInf \<Rightarrow> PosInf)"

definition StringToNumber :: "string \<Rightarrow> jsnum" where
  "StringToNumber s =
     (let t = trim s in
      if t = [] then Num 0
      else
        (case NonDecimalIntegerLiteral t of
           Some x \<Rightarrow> x
         | None \<Rightarrow>
             if hd t = CHR ''-'' then negate (StrUnsignedDecimalLiteral (tl t))
             else if hd t = CHR ''+'' then StrUnsignedDecimalLiteral (tl t)
             else StrUnsignedDecimalLiteral t))"

text \<open>\<^verbatim>\<open>Number(v)\<close> on a stored field.\<close>

fun Number :: "json \<Rightarrow> jsnum" where
  "Number Missing = NaN"
| "Number JNull = Num 0"
| "Number (JBool b) = Num (if b then 1 else 0)"
| "Number (JNum n) = toDouble n 1"
| "Number (JFrac m k) = toDouble m (2 ^ k)"
| "Number (JStr s) = StringToNumber s"

text \<open>\<^verbatim>\<open>if (e.notified)\<close>: JavaScript truthiness of a JSON value.\<close>

fun truthy :: "json \<Rightarrow> bool" where
  "truthy Missing = False"
| "truthy JNull = False"
| "truthy (JBool b) = b"
| "truthy (JNum n) = (n \<noteq> 0)"
| "truthy (JFrac m k) = (toDouble m (2 ^ k) \<noteq> Num 0)"
| "truthy (JStr s) = (s \<noteq> [])"

text \<open>
  \<^verbatim>\<open>a < b\<close> on numbers, \<^verbatim>\<open>Math.max(...)\<close> (\<open>NaN\<close> as soon as one argument is, minus
  infinity without arguments), \<^verbatim>\<open>x + 1\<close>, \<^verbatim>\<open>x || 0\<close> and \<^verbatim>\<open>Number.isInteger(x)\<close>.
\<close>

fun mant :: "jsnum \<Rightarrow> int" where
  "mant (Num n) = n"
| "mant (Frac m k) = m"
| "mant x = 0"

fun expo :: "jsnum \<Rightarrow> nat" where
  "expo (Frac m k) = k"
| "expo x = 0"

definition jsless :: "jsnum \<Rightarrow> jsnum \<Rightarrow> bool" where
  "jsless a b =
     (a \<noteq> NaN \<and> b \<noteq> NaN \<and> a \<noteq> PosInf \<and> b \<noteq> NegInf \<and>
      (a = NegInf \<or> b = PosInf \<or> mant a * 2 ^ expo b < mant b * 2 ^ expo a))"

definition Math_max :: "jsnum list \<Rightarrow> jsnum" where
  "Math_max xs =
     foldl (\<lambda>a b. if a = NaN \<or> b = NaN then NaN else if jsless a b then b else a) NegInf xs"

definition plus1 :: "jsnum \<Rightarrow> jsnum" where
  "plus1 x = (case x of Num n \<Rightarrow> toDouble (n + 1) 1
              | Frac m k \<Rightarrow> toDouble (m + 2 ^ k) (2 ^ k)
              | NaN \<Rightarrow> NaN | PosInf \<Rightarrow> PosInf | NegInf \<Rightarrow> NegInf)"

definition orZero :: "jsnum \<Rightarrow> jsnum" where
  "orZero x = (if x = NaN \<or> x = Num 0 then Num 0 else x)"

definition isInteger :: "jsnum \<Rightarrow> bool" where
  "isInteger x = (case x of Num n \<Rightarrow> True | NaN \<Rightarrow> False | Frac m k \<Rightarrow> False
                  | PosInf \<Rightarrow> False | NegInf \<Rightarrow> False)"

text \<open>\<^verbatim>\<open>v === x\<close> for a stored field \<open>v\<close> and a number \<open>x\<close> that is not \<open>NaN\<close>: no
  conversion, so only a stored number can be equal.\<close>

definition strictEq :: "json \<Rightarrow> jsnum \<Rightarrow> bool" where
  "strictEq v x =
     (case v of JNum n \<Rightarrow> toDouble n 1 = x | JFrac m k \<Rightarrow> toDouble m (2 ^ k) = x
      | Missing \<Rightarrow> False | JNull \<Rightarrow> False | JBool b \<Rightarrow> False | JStr s \<Rightarrow> False)"

text \<open>Decimal printing: \<^verbatim>\<open>String(n)\<close> and \<^verbatim>\<open>String(n).padStart(2, "0")\<close>.\<close>

definition digitChar :: "nat \<Rightarrow> char" where
  "digitChar n = char_of (48 + n)"

function show_nat :: "nat \<Rightarrow> string" where
  "show_nat n = (if n < 10 then [digitChar n] else show_nat (n div 10) @ [digitChar (n mod 10)])"
  by pat_completeness auto
termination
  by (relation "measure id") auto

declare show_nat.simps [simp del]

definition show_int :: "int \<Rightarrow> string" where
  "show_int i = (if i < 0 then CHR ''-'' # show_nat (nat (- i)) else show_nat (nat i))"

definition pad2 :: "string \<Rightarrow> string" where
  "pad2 s = replicate (2 - length s) CHR ''0'' @ s"

subsection \<open>Dates: the platform's \<^verbatim>\<open>Date\<close> and \<^verbatim>\<open>Intl.DateTimeFormat\<close>\<close>

text \<open>
  A time value is a number of milliseconds since 1970-01-01T00:00Z, or \<open>NaN\<close> for an
  invalid \<^verbatim>\<open>Date\<close>: \<open>None\<close> here. Day numbers and calendar dates are related by the
  proleptic Gregorian calendar, as ECMAScript's \<^verbatim>\<open>MakeDay\<close>, \<^verbatim>\<open>YearFromTime\<close>,
  \<^verbatim>\<open>MonthFromTime\<close> and \<^verbatim>\<open>DateFromTime\<close> define it; both directions are computed in
  closed form over 400-year eras starting on 1 March.
\<close>

definition msPerMinute :: int where "msPerMinute = 60000"
definition msPerHour :: int where "msPerHour = 3600000"
definition msPerDay :: int where "msPerDay = 86400000"

text \<open>
  \<^verbatim>\<open>MakeDay\<close> for a month 1 to 12: the day number of the day \<open>d\<close> of month \<open>m\<close> of year
  \<open>y\<close>. A day past the end of the month counts on into the next month.
\<close>

definition MakeDay :: "int \<Rightarrow> int \<Rightarrow> int \<Rightarrow> int" where
  "MakeDay y m d =
     (let y' = (if m \<le> 2 then y - 1 else y);
          era = y' div 400;
          yoe = y' mod 400;
          mp = (if m > 2 then m - 3 else m + 9);
          doy = (153 * mp + 2) div 5 + d - 1;
          doe = yoe * 365 + yoe div 4 - yoe div 100 + doy
      in era * 146097 + doe - 719468)"

text \<open>The calendar date (year, month 1 to 12, day) of a day number.\<close>

definition civil :: "int \<Rightarrow> int \<times> int \<times> int" where
  "civil day =
     (let z = day + 719468;
          era = z div 146097;
          doe = z mod 146097;
          yoe = (doe - doe div 1460 + doe div 36524 - doe div 146096) div 365;
          doy = doe - (365 * yoe + yoe div 4 - yoe div 100);
          mp = (5 * doy + 2) div 153;
          d = doy - (153 * mp + 2) div 5 + 1;
          m = (if mp < 10 then mp + 3 else mp - 9);
          y = yoe + era * 400 + (if m \<le> 2 then 1 else 0)
      in (y, m, d))"

text \<open>
  \<^verbatim>\<open>new Date(s)\<close> on a string \<^verbatim>\<open>YYYY-MM-DDTHH:mm:00+09:00\<close>, the one shape the
  programs write (\<^verbatim>\<open>parseJstToIso\<close>, \<^verbatim>\<open>parseAddArgs\<close>). Node's parser (V8) takes the
  month from 01 to 12, the day from 01 to 31, the hour from 00 to 24 (24 only as
  24:00) and the minute from 00 to 59; any other value gives an invalid \<^verbatim>\<open>Date\<close>. A day
  31 of a shorter month is passed on to \<^verbatim>\<open>MakeDay\<close>.

  Strings of any other shape (\<open>isoShape\<close> is the shape) are outside the model: the
  platform reads many of them as dates, this function none. The programs store no
  other string; every statement below that is about all stores of a kind says that
  the instants it reads have this shape.
\<close>

definition isoShape :: "string \<Rightarrow> bool" where
  "isoShape s =
     (length s = 25 \<and> matchDate (take 10 s) \<and> s ! 10 = CHR ''T'' \<and>
      matchTime (take 5 (drop 11 s)) \<and> drop 16 s = '':00+09:00'')"

definition Date_parse :: "string \<Rightarrow> int option" where
  "Date_parse s =
     (if isoShape s
      then
        (let y = int (dec (take 4 s));
             mo = int (dec (take 2 (drop 5 s)));
             d = int (dec (take 2 (drop 8 s)));
             h = int (dec (take 2 (drop 11 s)));
             mi = int (dec (take 2 (drop 14 s)))
         in if 1 \<le> mo \<and> mo \<le> 12 \<and> 1 \<le> d \<and> d \<le> 31 \<and> h \<le> 24 \<and> mi \<le> 59 \<and>
               (h < 24 \<or> mi = 0)
            then Some (MakeDay y mo d * msPerDay + h * msPerHour + mi * msPerMinute
                       - 9 * msPerHour)
            else None)
      else None)"

datatype error = RangeError | TypeError | SyntaxError | ENOENT

text \<open>
  The fields \<^verbatim>\<open>year\<close> (numeric), \<^verbatim>\<open>month\<close>, \<^verbatim>\<open>day\<close>, \<^verbatim>\<open>hour\<close>, \<^verbatim>\<open>minute\<close> (2-digit,
  \<^verbatim>\<open>hour12: false\<close>) of a time value at the offset \<open>off\<close> (in milliseconds), joined as
  both programs join them: \<^verbatim>\<open>YYYY-MM-DD HH:mm\<close>.
\<close>

definition keyAt :: "int \<Rightarrow> int \<Rightarrow> string" where
  "keyAt off t =
     (let loc = t + off;
          ymd = civil (loc div msPerDay);
          h = (loc mod msPerDay) div msPerHour;
          mi = ((loc mod msPerDay) div msPerMinute) mod 60
      in show_int (fst ymd) @ ''-'' @ pad2 (show_int (fst (snd ymd))) @ ''-'' @
         pad2 (show_int (snd (snd ymd))) @ '' '' @ pad2 (show_int h) @ '':'' @
         pad2 (show_int mi))"

text \<open>
  \<^verbatim>\<open>Intl.DateTimeFormat("ja-JP", { timeZone: "Asia/Tokyo", ... }).formatToParts(d)\<close>:
  a \<^verbatim>\<open>RangeError\<close> for an invalid \<^verbatim>\<open>Date\<close> (ECMA-402, PartitionDateTimePattern: "if x
  is NaN, throw a RangeError"), else the fields at Tokyo's offset. Asia/Tokyo is taken
  at +09:00 throughout, which it has been since September 1951: the keys are those of
  the platform for the instants from 1952 on (\<open>since1952\<close> is 1952-01-01T00:00 in
  Tokyo).
\<close>

definition tokyoOffset :: int where "tokyoOffset = 9 * msPerHour"


definition formatTokyo :: "int option \<Rightarrow> error + string" where
  "formatTokyo d = (case d of None \<Rightarrow> Inl RangeError | Some t \<Rightarrow> Inr (keyAt tokyoOffset t))"

text \<open>\<^verbatim>\<open>formatJst(isoString)\<close> of \<^verbatim>\<open>part_001\<close> (lines 58 to 76) and of the first program
  of \<^verbatim>\<open>part_000\<close> (lines 62 to 76).\<close>

definition formatJst :: "string \<Rightarrow> error + string" where
  "formatJst isoString = formatTokyo (Date_parse isoString)"

text \<open>\<^verbatim>\<open>nowKeyJst()\<close>, all three programs: the same fields of \<^verbatim>\<open>new Date()\<close>, the clock
  reading \<open>now\<close>.\<close>

definition nowKeyJst :: "int \<Rightarrow> string" where
  "nowKeyJst now = keyAt tokyoOffset now"

text \<open>\<^verbatim>\<open>parseJstToIso(dateStr, timeStr)\<close>.\<close>

definition parseJstToIso :: "string \<Rightarrow> string \<Rightarrow> string" where
  "parseJstToIso dateStr timeStr = dateStr @ ''T'' @ timeStr @ '':00+09:00''"

text \<open>
  \<^verbatim>\<open>formatJst(isoJst)\<close> of the second program of \<^verbatim>\<open>part_000\<close> (lines 303 to 311):
  \<^verbatim>\<open>getFullYear\<close>, \<^verbatim>\<open>getMonth\<close>, \<^verbatim>\<open>getDate\<close>, \<^verbatim>\<open>getHours\<close>, \<^verbatim>\<open>getMinutes\<close> read the time
  value in the time zone of the host process; \<open>tz t\<close> is that zone's offset from UTC, in
  milliseconds, at the time value \<open>t\<close>. On an invalid \<^verbatim>\<open>Date\<close> every getter is \<open>NaN\<close>.
\<close>

definition formatJst_C :: "(int \<Rightarrow> int) \<Rightarrow> string \<Rightarrow> string" where
  "formatJst_C tz isoString =
     (case Date_parse isoString of
        None \<Rightarrow> ''NaN-NaN-NaN NaN:NaN''
      | Some t \<Rightarrow> keyAt (tz t) t)"

subsection \<open>The store: \<^verbatim>\<open>events.json\<close>\<close>

text \<open>
  What the file holds: nothing (no file), text that \<^verbatim>\<open>JSON.parse\<close> rejects, a JSON
  value that is no array (an object, a number, a boolean, \<^verbatim>\<open>null\<close>), or an array of
  records. The state of the process is the file, the number of \<^verbatim>\<open>saveEvents\<close> calls made
  so far, and the \<^verbatim>\<open>chat.postMessage\<close> calls made so far (channel, time key, title).
\<close>

datatype datafile = Absent | Unparsable | NonArray | Events "event list"

type_synonym post = "string \<times> string \<times> string"

record world =
  dataFile :: datafile
  saves :: nat
  posts :: "post list"

datatype 'a outcome = Returned 'a | Threw error

datatype parsed = PArray "event list" | POther

text \<open>\<^verbatim>\<open>ensureDataFile()\<close>: writes \<^verbatim>\<open>[]\<close> when the file does not exist.\<close>

definition ensureDataFile :: "datafile \<Rightarrow> datafile" where
  "ensureDataFile f = (if f = Absent then Events [] else f)"

text \<open>\<^verbatim>\<open>JSON.parse(fs.readFileSync(DATA_FILE, "utf-8"))\<close>: either call may throw.\<close>

fun readParse :: "datafile \<Rightarrow> error + parsed" where
  "readParse Absent = Inl ENOENT"
| "readParse Unparsable = Inl SyntaxError"
| "readParse NonArray = Inr POther"
| "readParse (Events es) = Inr (PArray es)"

text \<open>
  \<^verbatim>\<open>loadEvents()\<close> of \<^verbatim>\<open>part_001\<close> (lines 42 to 52) and of the first program of
  \<^verbatim>\<open>part_000\<close>: the array read, and the file as \<^verbatim>\<open>ensureDataFile\<close> left it.
\<close>

definition loadEvents :: "datafile \<Rightarrow> event list \<times> datafile" where
  "loadEvents f =
     (let f1 = ensureDataFile f in
      (case readParse f1 of
         Inl e \<Rightarrow> []
       | Inr parsed \<Rightarrow> (case parsed of PArray es \<Rightarrow> es | POther \<Rightarrow> []),
       f1))"

text \<open>
  \<^verbatim>\<open>loadEvents()\<close> of the second program of \<^verbatim>\<open>part_000\<close> (lines 268 to 271): whatever
  \<^verbatim>\<open>JSON.parse\<close> returns, or \<^verbatim>\<open>[]\<close> when reading or parsing throws.
\<close>

definition loadEvents_C :: "datafile \<Rightarrow> parsed" where
  "loadEvents_C f = (case readParse f of Inl e \<Rightarrow> PArray [] | Inr parsed \<Rightarrow> parsed)"

text \<open>\<^verbatim>\<open>saveEvents(events)\<close>, all three programs.\<close>

definition saveEvents :: "event list \<Rightarrow> world \<Rightarrow> world" where
  "saveEvents events w = w\<lparr>dataFile := Events events, saves := saves w + 1\<rparr>"

subsection \<open>\<^verbatim>\<open>nextId\<close>, three ways\<close>

text \<open>\<^verbatim>\<open>part_001\<close>, lines 102 to 109: the loop over \<^verbatim>\<open>events\<close> with the running \<^verbatim>\<open>max\<close>.\<close>

fun nextId_loop :: "jsnum \<Rightarrow> event list \<Rightarrow> jsnum" where
  "nextId_loop mx [] = mx"
| "nextId_loop mx (e # es) =
     (let n = Number (id_ev e)
      in if n \<noteq> NaN then nextId_loop (Math_max [mx, n]) es else nextId_loop mx es)"

definition nextId :: "event list \<Rightarrow> jsnum" where
  "nextId events = plus1 (nextId_loop (Num 0) events)"

text \<open>
  First program of \<^verbatim>\<open>part_000\<close>, lines 100 to 103:
  \<^verbatim>\<open>events.reduce((m, e) => Math.max(m, Number(e.id) || 0), 0) + 1\<close>.
\<close>

definition nextId_B :: "event list \<Rightarrow> jsnum" where
  "nextId_B events =
     plus1 (foldl (\<lambda>m e. Math_max [m, orZero (Number (id_ev e))]) (Num 0) events)"

text \<open>
  Second program of \<^verbatim>\<open>part_000\<close>, lines 275 to 277:
  \<^verbatim>\<open>events.length ? Math.max(...events.map(e => e.id)) + 1 : 1\<close>. \<^verbatim>\<open>Math.max\<close> converts
  each argument with \<^verbatim>\<open>Number\<close> and is \<open>NaN\<close> as soon as one of them is.
\<close>

definition nextId_C :: "event list \<Rightarrow> jsnum" where
  "nextId_C events =
     (if events = [] then Num 1 else plus1 (Math_max (map (\<lambda>e. Number (id_ev e)) events)))"

text \<open>\<^verbatim>\<open>JSON.stringify\<close> writes \<open>NaN\<close> and the infinities as \<^verbatim>\<open>null\<close>.\<close>

definition jsonOfNum :: "jsnum \<Rightarrow> json" where
  "jsonOfNum x = (case x of NaN \<Rightarrow> JNull | PosInf \<Rightarrow> JNull | NegInf \<Rightarrow> JNull
                  | Num n \<Rightarrow> JNum n | Frac m k \<Rightarrow> JFrac m k)"

subsection \<open>\<^verbatim>\<open>Array.prototype.sort\<close>\<close>

text \<open>
  The comparator decides: \<open>x\<close> goes behind \<open>y\<close> when \<^verbatim>\<open>cmp(x, y) > 0\<close> (a result \<open>NaN\<close>
  counts as 0). The result is modelled as stable insertion from the right end. That is
  the array every sort returns, the engine's too, when the comparator orders the
  elements of the array consistently: for the comparator of \<^verbatim>\<open>part_001\<close>'s \<^verbatim>\<open>list\<close>, when
  no two records have the same \<^verbatim>\<open>isoJst\<close>; for the comparator of the second program of
  \<^verbatim>\<open>part_000\<close>, when every instant is a date.

  Otherwise the order is the engine's choice and this function does not give it. The
  comparator of \<^verbatim>\<open>part_001\<close> answers -1 both ways for two records with the same
  \<^verbatim>\<open>isoJst\<close>, and V8 then returns a run of such records in reverse. No statement below
  is about the order of such an array.
\<close>

definition behind :: "('a \<Rightarrow> 'a \<Rightarrow> jsnum) \<Rightarrow> 'a \<Rightarrow> 'a \<Rightarrow> bool" where
  "behind cmp x y = jsless (Num 0) (cmp x y)"

fun ins :: "('a \<Rightarrow> 'a \<Rightarrow> jsnum) \<Rightarrow> 'a \<Rightarrow> 'a list \<Rightarrow> 'a list" where
  "ins cmp x [] = [x]"
| "ins cmp x (y # ys) = (if behind cmp x y then y # ins cmp x ys else x # y # ys)"

definition js_sort :: "('a \<Rightarrow> 'a \<Rightarrow> jsnum) \<Rightarrow> 'a list \<Rightarrow> 'a list" where
  "js_sort cmp xs = foldr (ins cmp) xs []"

text \<open>\<^verbatim>\<open>(a, b) => (a.isoJst > b.isoJst ? 1 : -1)\<close>: strings compare by code units.\<close>

definition cmpIso :: "event \<Rightarrow> event \<Rightarrow> jsnum" where
  "cmpIso a b = (if isoJst a > isoJst b then Num 1 else Num (- 1))"

text \<open>\<^verbatim>\<open>(a, b) => new Date(a.isoJst) - new Date(b.isoJst)\<close>. The time values of the
  modelled strings are below \<open>2^49\<close> in size, so their difference is a double as it is.\<close>

definition cmpDate :: "event \<Rightarrow> event \<Rightarrow> jsnum" where
  "cmpDate a b =
     (case Date_parse (isoJst a) of
        None \<Rightarrow> NaN
      | Some ta \<Rightarrow> (case Date_parse (isoJst b) of None \<Rightarrow> NaN | Some tb \<Rightarrow> Num (ta - tb)))"

subsection \<open>Replies\<close>

text \<open>
  One constructor for each message template of the sources, carrying the values the
  template interpolates. A line of the listing is
  \<^verbatim>\<open>[${e.id}] ${formatJst(e.isoJst)}  ${e.title}  ${mark}\<close>; the flag is \<open>True\<close> for the
  done mark and \<open>False\<close> for the pending one.
\<close>

datatype line = Line json string string bool

datatype reply =
    HelpText
  | BadFormat
  | BadDateTime
  | Registered jsnum string string
  | NoEvents
  | Listing "line list"
  | BadRemove
  | IdNotNumber
  | NotFound jsnum
  | Removed jsnum
  | UnknownSub
  | Usage_C
  | AddUsage_C
  | DelUsage_C
  | Unknown_C

subsection \<open>The \<^verbatim>\<open>/event\<close> command of \<^verbatim>\<open>part_001\<close> (lines 125 to 215)\<close>

text \<open>
  The new record is written with the id as \<^verbatim>\<open>JSON.stringify\<close> writes it. The reply is
  built after \<^verbatim>\<open>saveEvents\<close>: when \<^verbatim>\<open>formatJst\<close> throws there, the handler ends with
  the exception and the store keeps the record. \<open>nid\<close> is the program's \<^verbatim>\<open>nextId\<close>.
\<close>

definition add_cmd :: "(event list \<Rightarrow> jsnum) \<Rightarrow> string list \<Rightarrow> world \<Rightarrow> reply outcome \<times> world" where
  "add_cmd nid tokens w =
     (if length tokens < 4 then (Returned BadFormat, w)
      else
        (let dateStr = tokens ! 1;
             timeStr = tokens ! 2;
             ttl = join (drop 3 tokens)
         in if \<not> (matchDate dateStr \<and> matchTime timeStr) then (Returned BadDateTime, w)
            else
              (let iso = parseJstToIso dateStr timeStr;
                   loaded = loadEvents (dataFile w);
                   events = fst loaded;
                   n = nid events;
                   events' = events @ [\<lparr>id_ev = jsonOfNum n, isoJst = iso, title = ttl,
                                         notified = JBool False\<rparr>];
                   w' = saveEvents events' (w\<lparr>dataFile := snd loaded\<rparr>)
               in case formatJst iso of
                    Inl err \<Rightarrow> (Threw err, w')
                  | Inr k \<Rightarrow> (Returned (Registered n k ttl), w'))))"

text \<open>The lines of the listing, in order; the first \<^verbatim>\<open>formatJst\<close> that throws ends it.\<close>

fun list_lines :: "event list \<Rightarrow> error + line list" where
  "list_lines [] = Inr []"
| "list_lines (e # es) =
     (case formatJst (isoJst e) of
        Inl err \<Rightarrow> Inl err
      | Inr k \<Rightarrow>
          (case list_lines es of
             Inl err \<Rightarrow> Inl err
           | Inr ls \<Rightarrow> Inr (Line (id_ev e) k (title e) (truthy (notified e)) # ls)))"

definition list_cmd :: "world \<Rightarrow> reply outcome \<times> world" where
  "list_cmd w =
     (let loaded = loadEvents (dataFile w);
          events = js_sort cmpIso (fst loaded);
          w' = w\<lparr>dataFile := snd loaded\<rparr>
      in if length events = 0 then (Returned NoEvents, w')
         else (case list_lines (take 50 events) of
                 Inl err \<Rightarrow> (Threw err, w')
               | Inr ls \<Rightarrow> (Returned (Listing ls), w')))"

text \<open>From \<^verbatim>\<open>loadEvents()\<close> on, \<^verbatim>\<open>part_001\<close> and the first program of \<^verbatim>\<open>part_000\<close> remove
  alike: \<^verbatim>\<open>saveEvents(after)\<close> comes before the lengths are compared.\<close>

definition remove_id :: "jsnum \<Rightarrow> world \<Rightarrow> reply outcome \<times> world" where
  "remove_id n w =
     (let loaded = loadEvents (dataFile w);
          events = fst loaded;
          beforeLen = length events;
          afterEvents = filter (\<lambda>e. Number (id_ev e) \<noteq> n) events;
          w' = saveEvents afterEvents (w\<lparr>dataFile := snd loaded\<rparr>)
      in if length afterEvents = beforeLen then (Returned (NotFound n), w')
         else (Returned (Removed n), w'))"

definition remove_cmd :: "string list \<Rightarrow> world \<Rightarrow> reply outcome \<times> world" where
  "remove_cmd tokens w =
     (if length tokens < 2 then (Returned BadRemove, w)
      else
        (let n = StringToNumber (tokens ! 1)
         in if n = NaN then (Returned IdNotNumber, w) else remove_id n w))"

definition event_command :: "string \<Rightarrow> world \<Rightarrow> reply outcome \<times> world" where
  "event_command ctext w =
     (let txt = trim ctext in
      if txt = [] then (Returned HelpText, w)
      else
        (let tokens = split_ws txt;
             sub = hd tokens
         in if sub = ''add'' then add_cmd nextId tokens w
            else if sub = ''list'' then list_cmd w
            else if sub = ''remove'' \<or> sub = ''delete'' then remove_cmd tokens w
            else (Returned UnknownSub, w)))"

subsection \<open>The \<^verbatim>\<open>/event\<close> command of the first program of \<^verbatim>\<open>part_000\<close> (lines 119 to 199)\<close>



subsection \<open>The \<^verbatim>\<open>/event\<close> command of the second program of \<^verbatim>\<open>part_000\<close> (lines 335 to 410)\<close>

text \<open>\<^verbatim>\<open>parseAddArgs(text)\<close>, lines 280 to 301: \<open>None\<close> is \<^verbatim>\<open>null\<close>. After the test of
  \<^verbatim>\<open>timeStr\<close>, \<^verbatim>\<open>timeStr.split(":")\<close> is its first two and its last two characters; an
  integer \<open>x\<close> is \<open>Num (mant x)\<close>.\<close>

definition parseAddArgs :: "string \<Rightarrow> (string \<times> string) option" where
  "parseAddArgs txt =
     (let parts = split_ws (trim txt) in
      if length parts < 3 then None
      else
        (let dateStr = parts ! 0;
             timeStr = parts ! 1;
             ttl = trim (join (drop 2 parts))
         in if ttl = [] then None
            else if \<not> matchDate dateStr then None
            else if \<not> matchTime timeStr then None
            else
              (let hh = StringToNumber (take 2 timeStr);
                   mm = StringToNumber (drop 3 timeStr)
               in if \<not> isInteger hh then None
                  else if mant hh < 0 \<or> mant hh > 23 then None
                  else if \<not> isInteger mm then None
                  else if mant mm < 0 \<or> mant mm > 59 then None
                  else
                    (let iso = dateStr @ ''T'' @ pad2 (show_int (mant hh)) @ '':'' @
                               pad2 (show_int (mant mm)) @ '':00+09:00''
                     in case Date_parse iso of
                          None \<Rightarrow> None
                        | Some t \<Rightarrow> Some (iso, ttl)))))"

text \<open>
  On a store that is no array, \<^verbatim>\<open>events.push\<close>, \<^verbatim>\<open>events.sort\<close> and \<^verbatim>\<open>events.filter\<close>
  are not functions: a \<^verbatim>\<open>TypeError\<close>. \<open>tz\<close> is the host's time zone (see \<open>formatJst_C\<close>).
\<close>

definition add_cmd_C :: "(int \<Rightarrow> int) \<Rightarrow> string \<Rightarrow> world \<Rightarrow> reply outcome \<times> world" where
  "add_cmd_C tz restText w =
     (case parseAddArgs restText of
        None \<Rightarrow> (Returned AddUsage_C, w)
      | Some p \<Rightarrow>
          (case loadEvents_C (dataFile w) of
             POther \<Rightarrow> (Threw TypeError, w)
           | PArray events \<Rightarrow>
               (let n = nextId_C events;
                    events' = js_sort cmpDate
                      (events @ [\<lparr>id_ev = jsonOfNum n, isoJst = fst p, title = snd p,
                                   notified = JBool False\<rparr>])
                in (Returned (Registered n (formatJst_C tz (fst p)) (snd p)),
                    saveEvents events' w))))"

definition list_cmd_C :: "(int \<Rightarrow> int) \<Rightarrow> world \<Rightarrow> reply outcome \<times> world" where
  "list_cmd_C tz w =
     (case loadEvents_C (dataFile w) of
        POther \<Rightarrow> (Threw TypeError, w)
      | PArray loaded \<Rightarrow>
          (let events = js_sort cmpDate loaded
           in if length events = 0 then (Returned NoEvents, w)
              else (Returned (Listing (map (\<lambda>e. Line (id_ev e) (formatJst_C tz (isoJst e))
                                                  (title e) (truthy (notified e)))
                                           (take 50 events))), w)))"

text \<open>\<^verbatim>\<open>Number(rest[0])\<close> is \<open>NaN\<close> when there is no \<^verbatim>\<open>rest[0]\<close>; \<^verbatim>\<open>e.id !== id\<close> compares
  without conversion.\<close>

definition del_cmd_C :: "string list \<Rightarrow> world \<Rightarrow> reply outcome \<times> world" where
  "del_cmd_C rest w =
     (let n = (if rest = [] then NaN else StringToNumber (hd rest))
      in if \<not> isInteger n then (Returned DelUsage_C, w)
         else
           (case loadEvents_C (dataFile w) of
              POther \<Rightarrow> (Threw TypeError, w)
            | PArray events \<Rightarrow>
                (let filtered = filter (\<lambda>e. \<not> strictEq (id_ev e) n) events
                 in if length filtered = length events then (Returned (NotFound n), w)
                    else (Returned (Removed n), saveEvents filtered w))))"

definition event_command_C :: "(int \<Rightarrow> int) \<Rightarrow> string \<Rightarrow> world \<Rightarrow> reply outcome \<times> world" where
  "event_command_C tz ctext w =
     (let txt = trim ctext in
      if txt = [] then (Returned Usage_C, w)
      else
        (let tokens = split_ws txt;
             sub = hd tokens;
             rest = tl tokens;
             restText = trim (join rest)
         in if sub = ''add'' then add_cmd_C tz restText w
            else if sub = ''list'' then list_cmd_C tz w
            else if sub = ''del'' then del_cmd_C rest w
            else (Returned Unknown_C, w)))"

subsection \<open>The reminder loop\<close>

text \<open>
  \<open>chan\<close> is \<^verbatim>\<open>TARGET_CHANNEL_ID\<close>, empty when the variable is not set. \<open>api e\<close> says
  whether \<^verbatim>\<open>chat.postMessage\<close> for the reminder of the record \<open>e\<close> resolves (\<open>True\<close>) or
  throws (\<open>False\<close>) in this tick.

  \<^verbatim>\<open>postReminder(event)\<close> of \<^verbatim>\<open>part_001\<close>, lines 218 to 238: the result's \<^verbatim>\<open>ok\<close> and the
  call made.
\<close>

definition postReminder :: "string \<Rightarrow> (event \<Rightarrow> bool) \<Rightarrow> event \<Rightarrow> error + bool \<times> post list" where
  "postReminder chan api e =
     (if chan = [] then Inr (False, [])
      else
        (case formatJst (isoJst e) of
           Inl err \<Rightarrow> Inl err
         | Inr k \<Rightarrow> Inr (api e, [(chan, k, title e)])))"

text \<open>
  The loop of \<^verbatim>\<open>tick\<close>, \<^verbatim>\<open>part_001\<close> lines 245 to 256, from the record it stands at: the
  records as the loop leaves them, \<^verbatim>\<open>changed\<close>, the posts made, and the exception that
  ended the loop, if one did.
\<close>

fun tick_loop ::
  "string \<Rightarrow> string \<Rightarrow> (event \<Rightarrow> bool) \<Rightarrow> event list \<Rightarrow> event list \<times> bool \<times> post list \<times> error option"
where
  "tick_loop nowKey chan api [] = ([], False, [], None)"
| "tick_loop nowKey chan api (e # es) =
     (if truthy (notified e) then
        (case tick_loop nowKey chan api es of
           (es', c, ps, th) \<Rightarrow> (e # es', c, ps, th))
      else
        (case formatJst (isoJst e) of
           Inl err \<Rightarrow> (e # es, False, [], Some err)
         | Inr ek \<Rightarrow>
             if ek = nowKey then
               (case postReminder chan api e of
                  Inl err \<Rightarrow> (e # es, False, [], Some err)
                | Inr r \<Rightarrow>
                    (case tick_loop nowKey chan api es of
                       (es', c, ps, th) \<Rightarrow>
                         ((if fst r then e\<lparr>notified := JBool True\<rparr> else e) # es',
                          fst r \<or> c, snd r @ ps, th)))
             else
               (case tick_loop nowKey chan api es of
                  (es', c, ps, th) \<Rightarrow> (e # es', c, ps, th))))"

text \<open>\<^verbatim>\<open>tick()\<close> of \<^verbatim>\<open>part_001\<close>, lines 240 to 259, at the clock reading \<open>now\<close>.\<close>

definition tick :: "string \<Rightarrow> int \<Rightarrow> (event \<Rightarrow> bool) \<Rightarrow> world \<Rightarrow> unit outcome \<times> world" where
  "tick chan now api w =
     (let nowKey = nowKeyJst now;
          loaded = loadEvents (dataFile w)
      in case tick_loop nowKey chan api (fst loaded) of
           (events', changed, ps, th) \<Rightarrow>
             (let w1 = w\<lparr>dataFile := snd loaded, posts := posts w @ ps\<rparr>
              in case th of
                   Some err \<Rightarrow> (Threw err, w1)
                 | None \<Rightarrow> (Returned (), if changed then saveEvents events' w1 else w1)))"

text \<open>
  The loop of \<^verbatim>\<open>tick\<close> of the second program of \<^verbatim>\<open>part_000\<close>, lines 422 to 441:
  \<^verbatim>\<open>postMessage\<close> stands in a \<^verbatim>\<open>try\<close> of its own and nothing else in the loop throws.
\<close>

fun tick_loop_C ::
  "(int \<Rightarrow> int) \<Rightarrow> string \<Rightarrow> string \<Rightarrow> (event \<Rightarrow> bool) \<Rightarrow> event list \<Rightarrow> event list \<times> bool \<times> post list"
where
  "tick_loop_C tz nowKey chan api [] = ([], False, [])"
| "tick_loop_C tz nowKey chan api (e # es) =
     (case tick_loop_C tz nowKey chan api es of
        (es', c, ps) \<Rightarrow>
          if truthy (notified e) then (e # es', c, ps)
          else if formatJst_C tz (isoJst e) = nowKey then
            ((if api e then e\<lparr>notified := JBool True\<rparr> else e) # es',
             api e \<or> c, (chan, formatJst_C tz (isoJst e), title e) # ps)
          else (e # es', c, ps))"

text \<open>\<^verbatim>\<open>tick()\<close> of the second program of \<^verbatim>\<open>part_000\<close>, lines 412 to 444. \<^verbatim>\<open>for ... of\<close>
  over a value that is no array is a \<^verbatim>\<open>TypeError\<close>.\<close>

definition tick_C :: "(int \<Rightarrow> int) \<Rightarrow> string \<Rightarrow> int \<Rightarrow> (event \<Rightarrow> bool) \<Rightarrow> world \<Rightarrow> unit outcome \<times> world" where
  "tick_C tz chan now api w =
     (if chan = [] then (Returned (), w)
      else
        (let nowKey = nowKeyJst now in
         case loadEvents_C (dataFile w) of
           POther \<Rightarrow> (Threw TypeError, w)
         | PArray events \<Rightarrow>
             (case tick_loop_C tz nowKey chan api events of
                (events', changed, ps) \<Rightarrow>
                  (let w1 = w\<lparr>posts := posts w @ ps\<rparr>
                   in (Returned (), if changed then saveEvents events' w1 else w1)))))"

subsection \<open>Runs: commands and ticks, one after the other\<close>

datatype action = Command string | Tick int "event \<Rightarrow> bool"

fun step :: "string \<Rightarrow> action \<Rightarrow> world \<Rightarrow> world" where
  "step chan (Command c) w = snd (event_command c w)"
| "step chan (Tick now api) w = snd (tick chan now api w)"

fun step_C :: "(int \<Rightarrow> int) \<Rightarrow> string \<Rightarrow> action \<Rightarrow> world \<Rightarrow> world" where
  "step_C tz chan (Command c) w = snd (event_command_C tz c w)"
| "step_C tz chan (Tick now api) w = snd (tick_C tz chan now api w)"

definition run :: "string \<Rightarrow> action list \<Rightarrow> world \<Rightarrow> world" where
  "run chan acts w = foldl (\<lambda>w a. step chan a w) w acts"

definition run_C :: "(int \<Rightarrow> int) \<Rightarrow> string \<Rightarrow> action list \<Rightarrow> world \<Rightarrow> world" where
  "run_C tz chan acts w = foldl (\<lambda>w a. step_C tz chan a w) w acts"

text \<open>
  The collection a program reads from a state (\<^verbatim>\<open>loadEvents()\<close> of \<^verbatim>\<open>part_001\<close>); an
  action that is a command, or a tick at a clock reading of 1952 or later (where the
  keys of \<open>nowKeyJst\<close> are the platform's); and the actions that remove a given record
  in \<^verbatim>\<open>part_001\<close>: a command \<^verbatim>\<open>remove ID\<close> or \<^verbatim>\<open>delete ID\<close> whose \<^verbatim>\<open>ID\<close> is the number
  the record's id converts to.
\<close>

definition events_of :: "world \<Rightarrow> event list" where
  "events_of w = fst (loadEvents (dataFile w))"



subsection \<open>Notions for the statements\<close>


definition due_C :: "(int \<Rightarrow> int) \<Rightarrow> string \<Rightarrow> event \<Rightarrow> bool" where
  "due_C tz k e = (\<not> truthy (notified e) \<and> formatJst_C tz (isoJst e) = k)"

definition marked :: "bool \<Rightarrow> event \<Rightarrow> event" where
  "marked b e = (if b then e\<lparr>notified := JBool True\<rparr> else e)"



definition timeOf :: "event \<Rightarrow> int" where
  "timeOf e = (case Date_parse (isoJst e) of None \<Rightarrow> 0 | Some t \<Rightarrow> t)"

definition lineOf :: "event \<Rightarrow> line" where
  "lineOf e = Line (id_ev e) (keyAt tokyoOffset (timeOf e)) (title e) (truthy (notified e))"

subsection \<open>Sample data\<close>

text \<open>
  A store of the given records with no save and no post made yet; two records due at
  2026-01-12 09:30 JST; the record that \<^verbatim>\<open>/event add 2026-01-12 25:99 X\<close> writes in
  \<^verbatim>\<open>part_001\<close>; a record of the next day that is notified; a record whose id is a
  string; and the clock reading 2026-01-12T00:30:00Z, which is 09:30 in Tokyo.
\<close>

definition withStore :: "datafile \<Rightarrow> world" where
  "withStore f = \<lparr>dataFile = f, saves = 0, posts = []\<rparr>"

definition standup :: event where
  "standup = \<lparr>id_ev = JNum 1, isoJst = ''2026-01-12T09:30:00+09:00'', title = ''Standup'',
               notified = JBool False\<rparr>"

definition broken :: event where
  "broken = \<lparr>id_ev = JNum 2, isoJst = ''2026-01-12T25:99:00+09:00'', title = ''X'',
              notified = JBool False\<rparr>"

definition retro :: event where
  "retro = \<lparr>id_ev = JNum 3, isoJst = ''2026-01-12T09:30:00+09:00'', title = ''Retro'',
             notified = JBool False\<rparr>"

definition standupDone :: event where
  "standupDone = standup\<lparr>notified := JBool True\<rparr>"

definition review :: event where
  "review = \<lparr>id_ev = JNum 4, isoJst = ''2026-01-13T10:00:00+09:00'', title = ''Review'',
              notified = JBool True\<rparr>"


definition halfPastNine :: int where
  "halfPastNine = 1768177800000"

definition utcHost :: "int \<Rightarrow> int" where
  "utcHost t = 0"

definition jstHost :: "int \<Rightarrow> int" where
  "jstHost t = 32400000"

section \<open>Facts about the model\<close>

subsection \<open>Tokens of a command line\<close>









lemma loadEvents_Events: "loadEvents (Events evs) = (evs, Events evs)"
  by (simp add: loadEvents_def ensureDataFile_def)






subsection \<open>What a command and a tick do to the collection\<close>

lemma events_of_saveEvents: "events_of (saveEvents es w) = es"
  by (simp add: events_of_def saveEvents_def loadEvents_Events)

lemma loadEvents_idem: "fst (loadEvents (snd (loadEvents f))) = fst (loadEvents f)"
  by (cases f) (simp_all add: loadEvents_def ensureDataFile_def)

lemma events_of_loaded:
  "events_of (w\<lparr>dataFile := snd (loadEvents (dataFile w))\<rparr>) = events_of w"
  by (simp add: events_of_def loadEvents_idem)

lemma events_of_loaded_posts:
  "events_of (w\<lparr>dataFile := snd (loadEvents (dataFile w)), posts := ps\<rparr>) = events_of w"
  by (simp add: events_of_def loadEvents_idem)


lemma events_of_list_cmd: "events_of (snd (list_cmd w)) = events_of w"
  by (simp add: list_cmd_def Let_def events_of_loaded split: sum.splits)

lemma events_of_remove_id:
  "events_of (snd (remove_id n w)) = filter (\<lambda>e. Number (id_ev e) \<noteq> n) (events_of w)"
  by (simp add: remove_id_def Let_def events_of_saveEvents) (simp add: events_of_def)



lemma events_of_tick:
  "events_of (snd (tick chan now api w)) = events_of w
   \<or> events_of (snd (tick chan now api w))
        = fst (tick_loop (nowKeyJst now) chan api (events_of w))"
  by (auto simp add: tick_def Let_def events_of_saveEvents events_of_loaded_posts
           split: prod.splits option.splits)
     (simp_all add: events_of_def)





lemma run_snoc: "run chan (acts @ [a]) w = step chan a (run chan acts w)"
  by (simp add: run_def)



subsection \<open>\<^verbatim>\<open>Number\<close> on strings\<close>

lemma StringToNumber_examples:
  "StringToNumber ''1e0'' = Num 1 \<and> StringToNumber ''1.0'' = Num 1
   \<and> StringToNumber ''0x1'' = Num 1 \<and> StringToNumber ''0b1'' = Num 1
   \<and> StringToNumber '' 12 '' = Num 12 \<and> StringToNumber ''-7'' = Num (- 7)
   \<and> StringToNumber ''1.5'' = Frac 3 1 \<and> StringToNumber ''.5e1'' = Num 5
   \<and> StringToNumber ''Infinity'' = PosInf \<and> StringToNumber ''-Infinity'' = NegInf
   \<and> StringToNumber ''9007199254740993'' = Num 9007199254740992
   \<and> StringToNumber ''0.1'' = Frac 3602879701896397 55
   \<and> StringToNumber ''abc'' = NaN \<and> StringToNumber ''1e'' = NaN
   \<and> StringToNumber ''-0x1'' = NaN \<and> StringToNumber ''1 2'' = NaN
   \<and> StringToNumber [] = Num 0"
  by code_simp

subsection \<open>\<^verbatim>\<open>nextId\<close>: what the three have in common\<close>

lemma dyadic_not_NaN: "dyadic m k \<noteq> NaN"
  by (induction m k rule: dyadic.induct) auto

lemma toDouble_not_NaN: "toDouble n d \<noteq> NaN"
  by (simp add: toDouble_def Let_def dyadic_not_NaN)

lemma plus1_NaN: "plus1 x = NaN \<longleftrightarrow> x = NaN"
  by (cases x) (simp_all add: plus1_def toDouble_not_NaN)

lemma Math_max_pair:
  "Math_max [a, b] = (if a = NaN \<or> b = NaN then NaN else if jsless a b then b else a)"
  by (cases a; cases b) (simp_all add: Math_max_def jsless_def)

lemma less_neg_scaled: "a * 2 ^ j < b * 2 ^ k \<Longrightarrow> b < 0 \<Longrightarrow> a < (0::int)"
proof -
  assume 1: "a * 2 ^ j < b * 2 ^ k" and 2: "b < 0"
  have "b * 2 ^ k < 0" using 2 by (simp add: mult_less_0_iff)
  then have "a * 2 ^ j < 0" using 1 by simp
  then show "a < 0" by (simp add: mult_less_0_iff)
qed

lemma jsless_nonneg:
  "\<not> jsless m (Num 0) \<Longrightarrow> m \<noteq> NaN \<Longrightarrow> jsless m x \<Longrightarrow> \<not> jsless x (Num 0)"
  using less_neg_scaled [of "mant m" "expo x" "mant x" "expo m"]
  by (cases m; cases x) (auto simp add: jsless_def)

lemma nextId_loop_not_NaN: "mx \<noteq> NaN \<Longrightarrow> nextId_loop mx es \<noteq> NaN"
  by (induction es arbitrary: mx) (simp_all add: Let_def Math_max_pair)

lemma nextId_not_NaN: "nextId es \<noteq> NaN"
  by (simp add: nextId_def plus1_NaN nextId_loop_not_NaN)

lemma nextId_B_loop:
  "mx \<noteq> NaN \<Longrightarrow> \<not> jsless mx (Num 0) \<Longrightarrow>
   foldl (\<lambda>m e. Math_max [m, orZero (Number (id_ev e))]) mx es = nextId_loop mx es"
proof (induction es arbitrary: mx)
  case Nil
  show ?case by simp
next
  case (Cons e es)
  show ?case
  proof (cases "Number (id_ev e) = NaN \<or> Number (id_ev e) = Num 0")
    case True
    then have o: "orZero (Number (id_ev e)) = Num 0" by (simp add: orZero_def)
    have m: "Math_max [mx, Num 0] = mx" using Cons.prems by (simp add: Math_max_pair)
    have "nextId_loop mx (e # es) = nextId_loop mx es"
      using True m by (auto simp add: Let_def)
    then show ?thesis using o m Cons.IH [OF Cons.prems] by simp
  next
    case False
    then have o: "orZero (Number (id_ev e)) = Number (id_ev e)" by (simp add: orZero_def)
    let ?m = "Math_max [mx, Number (id_ev e)]"
    have 1: "?m \<noteq> NaN" using False Cons.prems(1) by (simp add: Math_max_pair)
    have 2: "\<not> jsless ?m (Num 0)"
      using False Cons.prems jsless_nonneg [of mx "Number (id_ev e)"]
      by (simp add: Math_max_pair)
    show ?thesis using False o Cons.IH [OF 1 2] by (simp add: Let_def)
  qed
qed

lemma nextId_B_eq_nextId: "nextId_B es = nextId es"
  by (simp add: nextId_B_def nextId_def nextId_B_loop jsless_def)

lemma Math_max_NaN_acc:
  "foldl (\<lambda>a b. if a = NaN \<or> b = NaN then NaN else if jsless a b then b else a) NaN xs = NaN"
  by (induction xs) simp_all

lemma Math_max_NaN: "NaN \<in> set xs \<Longrightarrow> Math_max xs = NaN"
proof -
  have "NaN \<in> set xs \<Longrightarrow>
        foldl (\<lambda>a b. if a = NaN \<or> b = NaN then NaN else if jsless a b then b else a) a xs = NaN"
    for a
    by (induction xs arbitrary: a) (auto simp add: Math_max_NaN_acc)
  then show "NaN \<in> set xs \<Longrightarrow> Math_max xs = NaN" by (simp add: Math_max_def)
qed

lemma nextId_C_malformed:
  assumes "e \<in> set es" and "Number (id_ev e) = NaN"
  shows "nextId_C es = NaN"
proof -
  have "NaN \<in> set (map (\<lambda>e. Number (id_ev e)) es)" using assms by force
  then have "Math_max (map (\<lambda>e. Number (id_ev e)) es) = NaN" by (rule Math_max_NaN)
  moreover have "es \<noteq> []" using assms(1) by auto
  ultimately show ?thesis by (simp add: nextId_C_def plus1_def)
qed

subsection \<open>What a tick returns when every pending instant is a date\<close>

lemma formatJst_cases:
  "formatJst s = (case Date_parse s of None \<Rightarrow> Inl RangeError
                  | Some t \<Rightarrow> Inr (keyAt tokyoOffset t))"
  by (simp add: formatJst_def formatTokyo_def)



lemma tick_loop_C_result:
  "tick_loop_C tz k ch api es =
     (map (\<lambda>e. marked (due_C tz k e \<and> api e) e) es,
      list_ex (\<lambda>e. due_C tz k e \<and> api e) es,
      map (\<lambda>e. (ch, k, title e)) (filter (due_C tz k) es))"
proof (induction es)
  case Nil
  show ?case by simp
next
  case (Cons e es)
  show ?case
  proof (cases "due_C tz k e")
    case True
    then have "\<not> truthy (notified e)" "formatJst_C tz (isoJst e) = k"
      by (simp_all add: due_C_def)
    then show ?thesis using True by (simp add: Cons.IH marked_def)
  next
    case False
    then have "truthy (notified e) \<or> formatJst_C tz (isoJst e) \<noteq> k"
      by (simp add: due_C_def)
    then show ?thesis using False by (auto simp add: Cons.IH marked_def)
  qed
qed



subsection \<open>The instants the programs store\<close>

text \<open>
  Every \<^verbatim>\<open>add\<close> writes an instant of the shape \<open>isoShape\<close>, and no command and no tick
  writes another: a store of such instants stays one along every run, of \<^verbatim>\<open>part_001\<close>
  and of the second program of \<^verbatim>\<open>part_000\<close>.
\<close>

lemma isoShape_parseJstToIso:
  "matchDate dateStr \<Longrightarrow> matchTime timeStr \<Longrightarrow> isoShape (parseJstToIso dateStr timeStr)"
  by (simp add: isoShape_def parseJstToIso_def matchDate_def matchTime_def nth_append)

lemma add_cmd_shaped:
  "list_all (\<lambda>e. isoShape (isoJst e)) (events_of w) \<Longrightarrow>
   list_all (\<lambda>e. isoShape (isoJst e)) (events_of (snd (add_cmd nid tokens w)))"
  by (auto simp add: add_cmd_def Let_def events_of_saveEvents isoShape_parseJstToIso
           split: sum.splits)
     (simp_all add: events_of_def)

lemma tick_loop_shaped:
  "list_all (\<lambda>e. isoShape (isoJst e)) es \<Longrightarrow>
   list_all (\<lambda>e. isoShape (isoJst e)) (fst (tick_loop k ch api es))"
  by (induction es) (auto split: prod.splits sum.splits)

lemma step_shaped:
  assumes "list_all (\<lambda>e. isoShape (isoJst e)) (events_of w)"
  shows "list_all (\<lambda>e. isoShape (isoJst e)) (events_of (step chan a w))"
proof (cases a)
  case (Command c)
  show ?thesis
  proof (cases "trim c = []")
    case True
    then show ?thesis using assms Command by (simp add: event_command_def)
  next
    case False
    then show ?thesis
      using assms Command add_cmd_shaped [OF assms]
      by (auto simp add: event_command_def Let_def events_of_list_cmd remove_cmd_def
                         events_of_remove_id list_all_iff)
  qed
next
  case (Tick now api)
  then show ?thesis
    using events_of_tick [of chan now api w] tick_loop_shaped [OF assms] assms by auto
qed

lemma run_shaped:
  "list_all (\<lambda>e. isoShape (isoJst e)) (events_of w) \<Longrightarrow>
   list_all (\<lambda>e. isoShape (isoJst e)) (events_of (run chan acts w))"
proof (induction acts rule: rev_induct)
  case Nil
  then show ?case by (simp add: run_def)
next
  case (snoc a acts)
  then show ?case by (simp add: run_snoc step_shaped)
qed

lemma Date_parse_shape: "Date_parse s \<noteq> None \<Longrightarrow> isoShape s"
  by (auto simp add: Date_parse_def split: if_splits)

lemma parseAddArgs_dated: "parseAddArgs txt = Some p \<Longrightarrow> Date_parse (fst p) \<noteq> None"
  by (auto simp add: parseAddArgs_def Let_def split: if_splits option.splits)

lemma set_ins: "set (ins cmp x ys) = insert x (set ys)"
  by (induction ys) auto

lemma set_js_sort: "set (js_sort cmp xs) = set xs"
  by (induction xs) (simp_all add: js_sort_def set_ins)

lemma tick_loop_C_shaped:
  "list_all (\<lambda>e. isoShape (isoJst e)) es \<Longrightarrow>
   list_all (\<lambda>e. isoShape (isoJst e)) (fst (tick_loop_C tz k ch api es))"
  by (induction es) (auto split: prod.splits)

lemma step_C_shaped:
  assumes "list_all (\<lambda>e. isoShape (isoJst e)) (events_of w)"
  shows "list_all (\<lambda>e. isoShape (isoJst e)) (events_of (step_C tz chan a w))"
proof (cases a)
  case (Command c)
  have add: "list_all (\<lambda>e. isoShape (isoJst e)) (events_of (snd (add_cmd_C tz t w)))" for t
    using assms parseAddArgs_dated [of t, THEN Date_parse_shape]
    by (cases "dataFile w")
       (auto simp add: add_cmd_C_def Let_def saveEvents_def loadEvents_C_def
                       events_of_def loadEvents_def ensureDataFile_def list_all_iff set_js_sort
             split: option.splits)
  have lst: "events_of (snd (list_cmd_C tz w)) = events_of w"
    by (simp add: list_cmd_C_def Let_def split: parsed.splits)
  have del: "list_all (\<lambda>e. isoShape (isoJst e)) (events_of (snd (del_cmd_C r w)))" for r
    using assms
    by (cases "dataFile w")
       (auto simp add: del_cmd_C_def Let_def saveEvents_def loadEvents_C_def
                       events_of_def loadEvents_def ensureDataFile_def list_all_iff)
  show ?thesis
    using assms Command add lst del
    by (auto simp add: event_command_C_def Let_def)
next
  case (Tick now api)
  have "list_all (\<lambda>e. isoShape (isoJst e)) (events_of (snd (tick_C tz chan now api w)))"
    using assms
    by (cases "dataFile w")
       (auto simp add: tick_C_def Let_def saveEvents_def loadEvents_C_def
                       events_of_def loadEvents_def ensureDataFile_def tick_loop_C_result
                       list_all_iff marked_def
             split: prod.splits)
  then show ?thesis using Tick by simp
qed

lemma run_C_snoc: "run_C tz chan (acts @ [a]) w = step_C tz chan a (run_C tz chan acts w)"
  by (simp add: run_C_def)

lemma run_C_shaped:
  "list_all (\<lambda>e. isoShape (isoJst e)) (events_of w) \<Longrightarrow>
   list_all (\<lambda>e. isoShape (isoJst e)) (events_of (run_C tz chan acts w))"
proof (induction acts rule: rev_induct)
  case Nil
  then show ?case by (simp add: run_C_def)
next
  case (snoc a acts)
  then show ?case by (simp add: run_C_snoc step_C_shaped)
qed

subsection \<open>The listing\<close>

lemma ins_cmpIso: "ins cmpIso x ys = insort_key isoJst x ys"
  by (induction ys) (auto simp add: behind_def cmpIso_def jsless_def)

lemma js_sort_cmpIso: "js_sort cmpIso xs = sort_key isoJst xs"
proof -
  have "ins cmpIso = insort_key isoJst" by (intro ext) (rule ins_cmpIso)
  then show ?thesis by (simp add: js_sort_def sort_key_def)
qed

lemma list_lines_valid:
  "list_all (\<lambda>e. Date_parse (isoJst e) \<noteq> None) es \<Longrightarrow> list_lines es = Inr (map lineOf es)"
  by (induction es) (auto simp add: formatJst_cases lineOf_def timeOf_def)

lemma list_cmd_listing:
  assumes "list_all (\<lambda>e. Date_parse (isoJst e) \<noteq> None) (events_of w)"
    and "distinct (map isoJst (events_of w))"
  shows "list_cmd w =
     (Returned (if events_of w = [] then NoEvents
                else Listing (map lineOf (take 50 (sort_key isoJst (events_of w))))),
      w\<lparr>dataFile := snd (loadEvents (dataFile w))\<rparr>)"
proof -
  let ?s = "sort_key isoJst (events_of w)"
  have "list_all (\<lambda>e. Date_parse (isoJst e) \<noteq> None) (take 50 ?s)"
    using assms(1) by (auto simp add: list_all_iff dest: in_set_takeD)
  then have l: "list_lines (take 50 ?s) = Inr (map lineOf (take 50 ?s))"
    by (rule list_lines_valid)
  have e: "(length ?s = 0) = (events_of w = [])" by simp
  show ?thesis
    unfolding list_cmd_def Let_def js_sort_cmpIso events_of_def [symmetric] l
    using e by simp
qed

lemma listing_sorted_by_iso:
  "sorted (map isoJst (take 50 (sort_key isoJst es))) \<and> length (take 50 (sort_key isoJst es)) \<le> 50"
  by (simp add: sorted_wrt_take take_map [symmetric])

section \<open>The claims\<close>

text \<open>
  C1. The due key of an accepted \<^verbatim>\<open>add\<close> must be the very string \<^verbatim>\<open>DATE TIME\<close>, so
  that the event fires at the tick whose \<^verbatim>\<open>nowKey\<close> is that string. Two programs miss
  it, each where the other does not. \<^verbatim>\<open>part_001\<close> accepts every \<^verbatim>\<open>DATE\<close> and \<^verbatim>\<open>TIME\<close>
  of the right shape, and for \<^verbatim>\<open>2026-01-12 25:99\<close> the stored instant has no key at all:
  \<^verbatim>\<open>formatJst\<close> throws. The second program of \<^verbatim>\<open>part_000\<close> checks the ranges, but its
  \<^verbatim>\<open>formatJst\<close> reads the host's local time while \<^verbatim>\<open>nowKeyJst\<close> reads Tokyo's: on a
  host at UTC the key of \<^verbatim>\<open>2026-01-12 09:30\<close> is \<^verbatim>\<open>2026-01-12 00:30\<close>. On the valid
  input, \<^verbatim>\<open>part_001\<close> gives the key the claim says.
\<close>

theorem C1_due_key_differs:
  "matchDate ''2026-01-12'' \<and> matchTime ''25:99''
   \<and> formatJst (parseJstToIso ''2026-01-12'' ''25:99'') = Inl RangeError
   \<and> parseAddArgs ''2026-01-12 09:30 Standup''
       = Some (''2026-01-12T09:30:00+09:00'', ''Standup'')
   \<and> formatJst_C utcHost ''2026-01-12T09:30:00+09:00'' = ''2026-01-12 00:30''
   \<and> formatJst (parseJstToIso ''2026-01-12'' ''09:30'') = Inr ''2026-01-12 09:30''"
  by code_simp

text \<open>
  C2. A tick whose deliveries all succeed must mark every due record and save once.
  In \<^verbatim>\<open>part_001\<close> the loop calls \<^verbatim>\<open>formatJst\<close> on every record not yet notified, and a
  record whose instant is no date makes it throw. From the empty state, after
  \<^verbatim>\<open>add 2026-01-12 09:30 Standup\<close> and \<^verbatim>\<open>add 2026-01-12 25:99 X\<close>, the tick of 09:30
  posts the reminder of the first record and ends with the exception on the second,
  before \<^verbatim>\<open>saveEvents\<close>: two saves (the two \<^verbatim>\<open>add\<close>s), none by the tick, and the first
  record still \<^verbatim>\<open>notified: false\<close> in the store, to be posted again by the next tick of
  that minute. Without the second record the same tick marks what is due and saves
  once (\<open>tick_result\<close> states it for every store whose instants are dates), and
  the tick of the second program of \<^verbatim>\<open>part_000\<close> does so on this very store.
\<close>

theorem C2_tick_aborts_before_save:
  "run ''C0123''
       [Command ''add 2026-01-12 09:30 Standup'', Command ''add 2026-01-12 25:99 X'',
        Tick halfPastNine (\<lambda>e. True)]
       (withStore Absent)
     = \<lparr>dataFile = Events [standup, broken], saves = 2,
        posts = [(''C0123'', ''2026-01-12 09:30'', ''Standup'')]\<rparr>
   \<and> tick ''C0123'' halfPastNine (\<lambda>e. True) (withStore (Events [standup, broken]))
     = (Threw RangeError,
        \<lparr>dataFile = Events [standup, broken], saves = 0,
         posts = [(''C0123'', ''2026-01-12 09:30'', ''Standup'')]\<rparr>)
   \<and> tick ''C0123'' halfPastNine (\<lambda>e. True) (withStore (Events [standup, retro]))
     = (Returned (),
        \<lparr>dataFile = Events [standupDone, retro\<lparr>notified := JBool True\<rparr>], saves = 1,
         posts = [(''C0123'', ''2026-01-12 09:30'', ''Standup''),
                  (''C0123'', ''2026-01-12 09:30'', ''Retro'')]\<rparr>)
   \<and> tick_C jstHost ''C0123'' halfPastNine (\<lambda>e. True) (withStore (Events [standup, broken]))
     = (Returned (),
        \<lparr>dataFile = Events [standupDone, broken], saves = 1,
         posts = [(''C0123'', ''2026-01-12 09:30'', ''Standup'')]\<rparr>)"
  by code_simp









text \<open>
  C4. Removing an id that no record has must leave the store alone and save nothing.
  The \<^verbatim>\<open>del\<close> handler of the second program of \<^verbatim>\<open>part_000\<close> returns before
  \<^verbatim>\<open>saveEvents\<close>. \<^verbatim>\<open>part_001\<close> saves first and compares the lengths afterwards: the
  reply is the not-found one, but the file has been written, and a file that could not
  be parsed has been replaced by the empty array.
\<close>

theorem C4_remove_unknown_id_saves:
  "event_command ''remove 999'' (withStore (Events [standup]))
     = (Returned (NotFound (Num 999)), \<lparr>dataFile = Events [standup], saves = 1, posts = []\<rparr>)
   \<and> event_command ''remove 999'' (withStore Unparsable)
     = (Returned (NotFound (Num 999)), \<lparr>dataFile = Events [], saves = 1, posts = []\<rparr>)
   \<and> event_command_C utcHost ''del 999'' (withStore (Events [standup]))
     = (Returned (NotFound (Num 999)), withStore (Events [standup]))"
  by code_simp

text \<open>
  C5. An \<^verbatim>\<open>add\<close> whose time has the shape \<^verbatim>\<open>HH:mm\<close> but names no minute of the day must
  be rejected without touching the store. The second program of \<^verbatim>\<open>part_000\<close> does so
  (\<open>parseAddArgs\<close> checks the ranges). \<^verbatim>\<open>part_001\<close> tests the shape only: on
  \<^verbatim>\<open>add 2026-01-12 25:99 X\<close> it appends the record, saves, and then fails in
  \<^verbatim>\<open>formatJst\<close> while building the reply.
\<close>

theorem C5_out_of_range_time_is_stored:
  "event_command ''add 2026-01-12 25:99 X'' (withStore (Events [standup]))
     = (Threw RangeError, \<lparr>dataFile = Events [standup, broken], saves = 1, posts = []\<rparr>)
   \<and> event_command_C utcHost ''add 2026-01-12 25:99 X'' (withStore (Events [standup]))
     = (Returned AddUsage_C, withStore (Events [standup]))"
  by code_simp












text \<open>
  C7. An id that is no number must count as 0. \<^verbatim>\<open>part_001\<close> skips it and the first
  program of \<^verbatim>\<open>part_000\<close> writes \<^verbatim>\<open>Number(e.id) || 0\<close>: the two return the same number
  for every collection, and never \<open>NaN\<close> (\<open>nextId_B_eq_nextId\<close>, \<open>nextId_not_NaN\<close>). The
  second program of \<^verbatim>\<open>part_000\<close> hands the ids to \<^verbatim>\<open>Math.max\<close> as they are, and one id
  that is no number makes the next id \<open>NaN\<close> (\<open>nextId_C_malformed\<close>), which \<^verbatim>\<open>add\<close> then
  stores as \<^verbatim>\<open>null\<close>.
\<close>

theorem C7_nextId_of_malformed_id:
  "nextId_C [standup\<lparr>id_ev := JStr ''abc''\<rparr>] = NaN
   \<and> nextId [standup\<lparr>id_ev := JStr ''abc''\<rparr>] = Num 1
   \<and> nextId_B [standup\<lparr>id_ev := JStr ''abc''\<rparr>] = Num 1
   \<and> nextId_C [standup\<lparr>id_ev := Missing\<rparr>, retro] = NaN
   \<and> event_command_C jstHost ''add 2026-01-13 10:00 Retro''
         (withStore (Events [standup\<lparr>id_ev := JStr ''abc''\<rparr>]))
       = (Returned (Registered NaN ''2026-01-13 10:00'' ''Retro''),
          \<lparr>dataFile = Events [standup\<lparr>id_ev := JStr ''abc''\<rparr>,
                              \<lparr>id_ev = JNull, isoJst = ''2026-01-13T10:00:00+09:00'',
                               title = ''Retro'', notified = JBool False\<rparr>],
           saves = 1, posts = []\<rparr>)"
  by code_simp

text \<open>
  C8. \<^verbatim>\<open>list\<close> must answer for every store. In \<^verbatim>\<open>part_001\<close> it builds each line with
  \<^verbatim>\<open>formatJst\<close>, which throws on the record that \<^verbatim>\<open>add 2026-01-12 25:99 X\<close> has
  written: the handler ends with the exception and nothing is sent. On a store whose
  instants are dates, no two of them the same, it answers with the lines of the first
  50 records in the order of their \<^verbatim>\<open>isoJst\<close> (\<open>list_cmd_listing\<close>), and the \<^verbatim>\<open>list\<close> of
  the second program of \<^verbatim>\<open>part_000\<close> answers on the store with the broken record too.
\<close>

theorem C8_list_throws:
  "event_command ''list''
       (run ''C0123''
          [Command ''add 2026-01-12 09:30 Standup'', Command ''add 2026-01-12 25:99 X'']
          (withStore Absent))
     = (Threw RangeError,
        \<lparr>dataFile = Events [standup, broken], saves = 2, posts = []\<rparr>)
   \<and> event_command ''list'' (withStore (Events [review, standup]))
     = (Returned (Listing [Line (JNum 1) ''2026-01-12 09:30'' ''Standup'' False,
                           Line (JNum 4) ''2026-01-13 10:00'' ''Review'' True]),
        withStore (Events [review, standup]))
   \<and> event_command_C jstHost ''list'' (withStore (Events [standup, broken]))
     = (Returned (Listing [Line (JNum 1) ''2026-01-12 09:30'' ''Standup'' False,
                           Line (JNum 2) ''NaN-NaN-NaN NaN:NaN'' ''X'' False]),
        withStore (Events [standup, broken]))"
  by code_simp









text \<open>
  C10. \<^verbatim>\<open>loadEvents\<close> of \<^verbatim>\<open>part_001\<close> always returns an array and never throws: the
  stored array when the file holds one, the empty array otherwise. Only a file that
  does not exist is written (\<^verbatim>\<open>ensureDataFile\<close>); a file that does not parse, or holds
  something else than an array, is read as empty and left as it is.
\<close>

theorem C10_loadEvents_total:
  "fst (loadEvents f)
     = (case f of Absent \<Rightarrow> [] | Unparsable \<Rightarrow> [] | NonArray \<Rightarrow> [] | Events es \<Rightarrow> es)
   \<and> snd (loadEvents f) = (if f = Absent then Events [] else f)"
  by (cases f) (simp_all add: loadEvents_def ensureDataFile_def)

text \<open>
  The claim as it was stated (an unparsable resource is re-initialised to an empty valid
  state) fails: after \<^verbatim>\<open>loadEvents\<close> the file still does not parse. (The
  \<^verbatim>\<open>loadEvents\<close> of the second program of \<^verbatim>\<open>part_000\<close> writes nothing at all, and
  returns a stored value that is no array as it is.)
\<close>

theorem C10_unparsable_is_left_as_it_is:
  "loadEvents Unparsable = ([], Unparsable) \<and> snd (loadEvents Unparsable) \<noteq> Events []
   \<and> loadEvents_C NonArray = POther"
  by (simp add: loadEvents_def ensureDataFile_def loadEvents_C_def)

end
